theory Spec2Isabelle
  imports Main
begin

section \<open>Query decomposition, fan-out answering and recombination\<close>

text \<open>
  The notebook \<^verbatim>\<open>15-FastAPI-API.ipynb\<close> decomposes a question into sub-questions
  (\<^verbatim>\<open>query_analyzer\<close> and the cell that tests \<^verbatim>\<open>sub_questions == [""]\<close>), asks a
  retrieval agent for an answer to each of them with two attempts (the \<^verbatim>\<open>rag_results\<close>
  cell), and formats questions and answers into one context (\<^verbatim>\<open>format_qa_pairs\<close>).

  The language model and the retrieval agent are external: they are parameters of the
  model. A call either returns a text or raises. \<^verbatim>\<open>print\<close> only writes to the display
  of a cell, which no later cell reads; the display is left out, and with it the counter
  \<^verbatim>\<open>i\<close> of the outer loop of the \<^verbatim>\<open>rag_results\<close> cell, which only the printed
  messages use.
\<close>

subsection \<open>Python strings\<close>

text \<open>
  A Python \<^verbatim>\<open>str\<close> is a \<^typ>\<open>string\<close>; a \<^typ>\<open>char\<close> is read as the code point of
  the same number (0 to 255). \<open>NL\<close> is the line feed \<^verbatim>\<open>"\n"\<close>.
\<close>

definition NL :: char where
  "NL = CHR 0x0A"

text \<open>
  \<^verbatim>\<open>str.isspace\<close> on one character. Among the code points below 256 Python counts as
  whitespace: tab, line feed, vertical tab, form feed, carriage return, the four
  separators 0x1C to 0x1F, the space, NEL (0x85) and the no-break space (0xA0).
\<close>

definition whitespace :: "char list" where
  "whitespace = [CHR 0x09, CHR 0x0A, CHR 0x0B, CHR 0x0C, CHR 0x0D,
                 CHR 0x1C, CHR 0x1D, CHR 0x1E, CHR 0x1F, CHR 0x20, CHR 0x85, CHR 0xA0]"

definition isspace :: "char \<Rightarrow> bool" where
  "isspace c = (c \<in> set whitespace)"

text \<open>
  \<^verbatim>\<open>s.strip()\<close> without argument: the index of the first character that is not whitespace
  is found from the left, then the end is moved left over whitespace, and the slice
  between the two is returned.
\<close>

definition lstrip :: "string \<Rightarrow> string" where
  "lstrip s = dropWhile isspace s"

definition rstrip :: "string \<Rightarrow> string" where
  "rstrip s = rev (dropWhile isspace (rev s))"

definition str_strip :: "string \<Rightarrow> string" where
  "str_strip s = rstrip (lstrip s)"

text \<open>
  \<^verbatim>\<open>s.split(sep)\<close> for a separator of one character, as in \<^verbatim>\<open>x.split("\n")\<close>: the text
  is scanned from the left, \<open>cur\<close> holds the characters read since the last separator,
  every separator closes a field, and the end of the text closes the last one. The
  result is never the empty list: the empty text gives one empty field.
\<close>

fun split_scan :: "char \<Rightarrow> string \<Rightarrow> string \<Rightarrow> string list" where
  "split_scan sep cur [] = [cur]"
| "split_scan sep cur (c # cs) =
     (if c = sep then cur # split_scan sep [] cs else split_scan sep (cur @ [c]) cs)"

definition str_split :: "char \<Rightarrow> string \<Rightarrow> string list" where
  "str_split sep s = split_scan sep [] s"

text \<open>
  \<^verbatim>\<open>str(i)\<close> for the index \<^verbatim>\<open>i\<close> of an f-string, which \<^verbatim>\<open>enumerate(..., start=1)\<close>
  counts from 1: the decimal digits of a natural number, without sign and without
  leading zero.
\<close>

fun str_nat :: "nat \<Rightarrow> string" where
  "str_nat n =
     (if n < 10 then [''0123456789'' ! n]
      else str_nat (n div 10) @ [''0123456789'' ! (n mod 10)])"

declare str_nat.simps [simp del]

subsection \<open>External capabilities\<close>

text \<open>
  What a call of an external capability raises. \<open>Exception e\<close> is an instance of
  \<^verbatim>\<open>Exception\<close> or of a subclass, with message \<open>e\<close>: this is what
  \<^verbatim>\<open>except Exception as e\<close> catches. \<open>BaseException e\<close> is one of the others
  (\<^verbatim>\<open>KeyboardInterrupt\<close>, \<^verbatim>\<open>SystemExit\<close>), which no handler of the notebook catches.
\<close>

datatype exc = Exception string | BaseException string

text \<open>
  The chain \<^verbatim>\<open>prompt | llm_with_tools | StrOutputParser()\<close> maps the question to the
  text of the model's reply, or raises. The retrieval agent \<^verbatim>\<open>rag_agent\<close> may answer
  the same sub-question differently at each call, so it carries a state of its own.
\<close>

type_synonym chain = "string \<Rightarrow> exc + string"

type_synonym 's agent = "string \<Rightarrow> 's \<Rightarrow> (exc + string) \<times> 's"

subsection \<open>Decomposition\<close>

text \<open>
  \<^verbatim>\<open>query_analyzer = prompt | llm_with_tools | StrOutputParser() | (lambda x: x.split("\n"))\<close>
  and \<^verbatim>\<open>query_analyzer.invoke({"question": original_question})\<close>: an exception of the
  chain propagates.
\<close>

definition query_analyzer :: "chain \<Rightarrow> string \<Rightarrow> exc + string list" where
  "query_analyzer chain question =
     (case chain question of
        Inl e \<Rightarrow> Inl e
      | Inr x \<Rightarrow> Inr (str_split NL x))"

text \<open>
  The two cells that bind \<^verbatim>\<open>sub_questions\<close>:
  \<^verbatim>\<open>
  sub_questions = query_analyzer.invoke({"question": original_question})
  if sub_questions == [""]:
      sub_questions = [original_question]
  \<close>
\<close>

definition decompose :: "chain \<Rightarrow> string \<Rightarrow> exc + string list" where
  "decompose chain original_question =
     (case query_analyzer chain original_question of
        Inl e \<Rightarrow> Inl e
      | Inr sub_questions \<Rightarrow>
          if sub_questions = [''''] then Inr [original_question] else Inr sub_questions)"

subsection \<open>Fan-out with retry\<close>

text \<open>
  The variables of the \<^verbatim>\<open>rag_results\<close> cell. \<^verbatim>\<open>sub_response\<close> is unbound (\<open>None\<close>)
  until an attempt binds it.
\<close>

record 's env =
  agent_state :: 's
  sub_response :: "string option"
  rag_results :: "string list"

text \<open>
  The inner loop over \<^verbatim>\<open>range(2)\<close>:
  \<^verbatim>\<open>
  for k in range(2):
      try:
          sub_response = rag_agent(sub_question)
          break
      except Exception as e:
          sub_response = "No response found."
          continue
  \<close>
  A returned answer is bound and ends the loop (\<^verbatim>\<open>break\<close>); an \<^verbatim>\<open>Exception\<close> binds the
  sentinel and the loop goes on with the next \<open>k\<close>; anything else leaves the cell.
\<close>

fun for_k :: "'s agent \<Rightarrow> string \<Rightarrow> nat list \<Rightarrow> 's env \<Rightarrow> exc + 's env" where
  "for_k rag_agent sub_question [] env = Inr env"
| "for_k rag_agent sub_question (k # ks) env =
     (case rag_agent sub_question (agent_state env) of
        (Inr r, s) \<Rightarrow> Inr (env\<lparr>agent_state := s, sub_response := Some r\<rparr>)
      | (Inl (Exception e), s) \<Rightarrow>
          for_k rag_agent sub_question ks
            (env\<lparr>agent_state := s, sub_response := Some ''No response found.''\<rparr>)
      | (Inl (BaseException e), s) \<Rightarrow> Inl (BaseException e))"

text \<open>
  The outer loop \<^verbatim>\<open>for i, sub_question in enumerate(sub_questions, start=1)\<close>. Its body
  is the inner loop and nothing else: the \<^verbatim>\<open>append\<close> is not indented under it.
\<close>

fun for_sub_question :: "'s agent \<Rightarrow> string list \<Rightarrow> 's env \<Rightarrow> exc + 's env" where
  "for_sub_question rag_agent [] env = Inr env"
| "for_sub_question rag_agent (sub_question # rest) env =
     (case for_k rag_agent sub_question [0..<2] env of
        Inl e \<Rightarrow> Inl e
      | Inr env' \<Rightarrow> for_sub_question rag_agent rest env')"

text \<open>
  The whole cell: \<^verbatim>\<open>rag_results = []\<close>, the loop, and after the loop
  \<^verbatim>\<open>rag_results.append(sub_response)\<close>, which raises \<^verbatim>\<open>NameError\<close> when no attempt
  has bound \<^verbatim>\<open>sub_response\<close>.
\<close>

definition rag_cell :: "'s agent \<Rightarrow> string list \<Rightarrow> 's env \<Rightarrow> exc + 's env" where
  "rag_cell rag_agent sub_questions env =
     (case for_sub_question rag_agent sub_questions (env\<lparr>rag_results := []\<rparr>) of
        Inl e \<Rightarrow> Inl e
      | Inr env' \<Rightarrow>
          (case sub_response env' of
             None \<Rightarrow> Inl (Exception ''name 'sub_response' is not defined'')
           | Some r \<Rightarrow> Inr (env'\<lparr>rag_results := rag_results env' @ [r]\<rparr>)))"

subsection \<open>Recombination\<close>

text \<open>
  \<^verbatim>\<open>
  def format_qa_pairs(questions, answers):
      formatted_string = ""
      for i, (question, answer) in enumerate(zip(questions, answers), start=1):
          formatted_string += f"Question {i}: {question}\nAnswer {i}: {answer}\n\n"
      return formatted_string.strip()
  \<close>
  \<^verbatim>\<open>zip\<close> stops at the end of the shorter list, in Python as in HOL.
\<close>

fun format_loop :: "nat \<Rightarrow> (string \<times> string) list \<Rightarrow> string \<Rightarrow> string" where
  "format_loop i [] formatted_string = formatted_string"
| "format_loop i ((question, answer) # rest) formatted_string =
     format_loop (Suc i) rest
       (formatted_string @ ''Question '' @ str_nat i @ '': '' @ question @ [NL]
          @ ''Answer '' @ str_nat i @ '': '' @ answer @ [NL, NL])"

definition format_qa_pairs :: "string list \<Rightarrow> string list \<Rightarrow> string" where
  "format_qa_pairs questions answers = str_strip (format_loop 1 (zip questions answers) [])"

text \<open>
  \<^verbatim>\<open>context = format_qa_pairs(sub_questions, rag_results)\<close>, run after the
  \<^verbatim>\<open>rag_results\<close> cell.
\<close>

definition context_cell :: "'s agent \<Rightarrow> string list \<Rightarrow> 's env \<Rightarrow> exc + string" where
  "context_cell rag_agent sub_questions env =
     (case rag_cell rag_agent sub_questions env of
        Inl e \<Rightarrow> Inl e
      | Inr env' \<Rightarrow> Inr (format_qa_pairs sub_questions (rag_results env')))"

subsection \<open>Vocabulary of the properties\<close>

text \<open>
  \<^verbatim>\<open>sep.join(xs)\<close>. The notebook does not call it; the properties below use it to say
  "joined with a newline" and "separated by a blank line".
\<close>

fun str_join :: "string \<Rightarrow> string list \<Rightarrow> string" where
  "str_join sep [] = []"
| "str_join sep [x] = x"
| "str_join sep (x # y # ys) = x @ sep @ str_join sep (y # ys)"

text \<open>
  The text of pair number \<open>i\<close>: a labelled question line followed by a labelled answer
  line.
\<close>

fun labelled_pair :: "nat \<times> string \<times> string \<Rightarrow> string" where
  "labelled_pair (i, question, answer) =
     ''Question '' @ str_nat i @ '': '' @ question @ [NL] @ ''Answer '' @ str_nat i @ '': '' @ answer"

text \<open>
  A retrieval agent for concrete runs: it replays a script of outcomes, one per call,
  whatever the sub-question, and raises once the script is used up.
\<close>

fun scripted :: "((exc + string) list) agent" where
  "scripted sub_question [] = (Inl (Exception ''script exhausted''), [])"
| "scripted sub_question (r # rs) = (r, rs)"

text \<open>
  The variables of the \<^verbatim>\<open>rag_results\<close> cell in a fresh kernel, with the script the
  agent is going to replay.
\<close>

definition env0 :: "(exc + string) list \<Rightarrow> (exc + string) list env" where
  "env0 script = \<lparr>agent_state = script, sub_response = None, rag_results = []\<rparr>"

section \<open>Properties\<close>

subsection \<open>Splitting and joining\<close>

lemma split_scan_not_Nil: "split_scan sep cur s \<noteq> []"
  by (induction s arbitrary: cur) auto

lemma split_scan_single: "split_scan sep cur s = [l] \<Longrightarrow> l = cur @ s"
proof (induction s arbitrary: cur)
  case Nil
  then show ?case by simp
next
  case (Cons c cs)
  show ?case
  proof (cases "c = sep")
    case True
    with Cons.prems show ?thesis by (simp add: split_scan_not_Nil)
  next
    case False
    with Cons.prems have "split_scan sep (cur @ [c]) cs = [l]" by simp
    from Cons.IH [OF this] show ?thesis by simp
  qed
qed

lemma str_split_empty_iff: "str_split sep s = [''''] \<longleftrightarrow> s = []"
  using split_scan_single [of sep "[]" s "[]"] by (auto simp: str_split_def)

lemma join_Cons: "xs \<noteq> [] \<Longrightarrow> str_join sep (x # xs) = x @ sep @ str_join sep xs"
  by (cases xs) auto

lemma join_split_scan: "str_join [sep] (split_scan sep cur s) = cur @ s"
  by (induction s arbitrary: cur) (auto simp: join_Cons split_scan_not_Nil)

lemma split_scan_no_sep: "sep \<notin> set cur \<Longrightarrow> l \<in> set (split_scan sep cur s) \<Longrightarrow> sep \<notin> set l"
proof (induction s arbitrary: cur)
  case Nil
  then show ?case by simp
next
  case (Cons c cs)
  show ?case
  proof (cases "c = sep")
    case True
    with Cons.prems have "l = cur \<or> l \<in> set (split_scan sep [] cs)" by simp
    then show ?thesis using Cons.prems(1) Cons.IH [of "[]"] by auto
  next
    case False
    with Cons.prems have "l \<in> set (split_scan sep (cur @ [c]) cs)" by simp
    moreover from False Cons.prems(1) have "sep \<notin> set (cur @ [c])" by auto
    ultimately show ?thesis using Cons.IH [of "cur @ [c]"] by blast
  qed
qed

subsection \<open>The formatting loop and the final strip\<close>

lemma format_loop_concat:
  "format_loop i ps acc = acc @ concat (map (\<lambda>p. labelled_pair p @ [NL, NL]) (zip [i..<i + length ps] ps))"
proof (induction ps arbitrary: i acc)
  case Nil
  then show ?case by simp
next
  case (Cons p ps)
  obtain q a where p: "p = (q, a)" by (cases p)
  have "[i..<i + length (p # ps)] = i # [Suc i..<Suc i + length ps]"
    using upt_conv_Cons [of i "i + length (p # ps)"] by simp
  then show ?case using Cons.IH [of "Suc i"] by (simp add: p)
qed

lemma concat_join: "xs \<noteq> [] \<Longrightarrow> concat (map (\<lambda>p. f p @ sep) xs) = str_join sep (map f xs) @ sep"
  by (induction xs rule: list_nonempty_induct) (auto simp: join_Cons)

lemma rstrip_NL: "rstrip (s @ [NL, NL]) = rstrip s"
  by (simp add: rstrip_def isspace_def whitespace_def NL_def)

lemma rstrip_no_trailing: "rstrip s = [] \<or> \<not> isspace (last (rstrip s))"
proof (cases "dropWhile isspace (rev s)")
  case Nil
  then show ?thesis by (simp add: rstrip_def)
next
  case (Cons c cs)
  then have "\<not> isspace c" using hd_dropWhile [of isspace "rev s"] by force
  then show ?thesis using Cons by (simp add: rstrip_def)
qed

subsection \<open>Decomposition\<close>

text \<open>
  What \<open>decompose\<close> returns when the chain returns the text \<open>raw\<close>: the test
  \<^verbatim>\<open>sub_questions == [""]\<close> succeeds exactly on the empty text.
\<close>

lemma decompose_returned:
  "chain q = Inr raw \<Longrightarrow> decompose chain q = Inr (if raw = [] then [q] else str_split NL raw)"
  by (simp add: decompose_def query_analyzer_def str_split_empty_iff)

text \<open>
  C8. For every non-empty question, whatever text the generation capability returns,
  \<open>decompose\<close> returns a sequence of sub-questions of length at least 1. (The proof
  does not use that the question is non-empty.)
\<close>

theorem decompose_at_least_one:
  "original_question \<noteq> [] \<Longrightarrow> chain original_question = Inr raw \<Longrightarrow>
     \<exists>sub_questions. decompose chain original_question = Inr sub_questions
        \<and> 1 \<le> length sub_questions"
proof -
  assume "chain original_question = Inr raw"
  then have "decompose chain original_question
      = Inr (if raw = [] then [original_question] else str_split NL raw)"
    by (rule decompose_returned)
  moreover have "str_split NL raw \<noteq> []"
    by (simp add: str_split_def split_scan_not_Nil)
  then have "1 \<le> length (str_split NL raw)"
    by (cases "str_split NL raw") simp_all
  ultimately show ?thesis by simp
qed

theorem decompose_at_least_one_witness:
  "''Compare Bank A and Bank B'' \<noteq> []
   \<and> (\<lambda>q. Inr ''What about Bank A?\<newline>What about Bank B?'') ''Compare Bank A and Bank B''
       = (Inr ''What about Bank A?\<newline>What about Bank B?'' :: exc + string)
   \<and> (\<exists>sub_questions.
         decompose (\<lambda>q. Inr ''What about Bank A?\<newline>What about Bank B?'')
            ''Compare Bank A and Bank B''
           = Inr sub_questions \<and> 1 \<le> length sub_questions)"
  using decompose_at_least_one [of "''Compare Bank A and Bank B''"
      "\<lambda>q. Inr ''What about Bank A?\<newline>What about Bank B?''"
      "''What about Bank A?\<newline>What about Bank B?''"]
  by simp

text \<open>
  C4. If the generation capability returns an empty result, that is, if the split of
  its text at newlines yields the single entry \<^verbatim>\<open>""\<close>, then \<open>decompose\<close> returns
  exactly the one-element sequence holding the original question. By
  \<open>str_split_empty_iff\<close> the two conditions are the same one: only the empty text
  splits into \<^verbatim>\<open>[""]\<close>. A text of spaces or of newlines only is not such a result; what
  \<open>decompose\<close> returns for it is given by C9.
\<close>

theorem decompose_empty_fallback:
  "chain original_question = Inr raw \<Longrightarrow> raw = [] \<or> str_split NL raw = [''''] \<Longrightarrow>
     decompose chain original_question = Inr [original_question]"
  by (auto simp: decompose_returned str_split_empty_iff)

theorem decompose_empty_fallback_witness:
  "(\<lambda>q. Inr '''') ''Compare Bank A and Bank B'' = (Inr '''' :: exc + string)
   \<and> ('''' = [] \<or> str_split NL '''' = [''''])
   \<and> decompose (\<lambda>q. Inr '''') ''Compare Bank A and Bank B'' = Inr [''Compare Bank A and Bank B'']"
  using decompose_empty_fallback [of "\<lambda>q. Inr ''''" "''Compare Bank A and Bank B''" "''''"]
  by simp

text \<open>
  C9. For every non-empty text returned by the generation capability, \<open>decompose\<close>
  returns exactly the fields of the split of that text at newlines, in order; joining
  them with a newline gives the text back, and no field contains a newline.
\<close>

theorem decompose_lines_roundtrip:
  "raw \<noteq> [] \<Longrightarrow> chain original_question = Inr raw \<Longrightarrow>
     decompose chain original_question = Inr (str_split NL raw)
     \<and> str_join [NL] (str_split NL raw) = raw
     \<and> (\<forall>line \<in> set (str_split NL raw). NL \<notin> set line)"
proof (intro conjI ballI)
  assume "raw \<noteq> []" and "chain original_question = Inr raw"
  then show "decompose chain original_question = Inr (str_split NL raw)"
    by (simp add: decompose_returned)
next
  show "str_join [NL] (str_split NL raw) = raw"
    by (simp add: str_split_def join_split_scan)
next
  fix line assume "line \<in> set (str_split NL raw)"
  then show "NL \<notin> set line"
    using split_scan_no_sep [of NL "[]" line raw] by (simp add: str_split_def)
qed

theorem decompose_lines_roundtrip_witness:
  "''What about Bank A?\<newline>What about Bank B?'' \<noteq> []
   \<and> decompose (\<lambda>q. Inr ''What about Bank A?\<newline>What about Bank B?'')
        ''Compare Bank A and Bank B''
       = Inr [''What about Bank A?'', ''What about Bank B?'']
   \<and> str_join [NL] [''What about Bank A?'', ''What about Bank B?'']
       = ''What about Bank A?\<newline>What about Bank B?''"
  using decompose_lines_roundtrip [of "''What about Bank A?\<newline>What about Bank B?''"
      "\<lambda>q. Inr ''What about Bank A?\<newline>What about Bank B?''" "''Compare Bank A and Bank B''"]
  by (simp add: str_split_def NL_def)

subsection \<open>Recombination\<close>

text \<open>
  C10. When the sub-question sequence and the answer sequence are both empty,
  \<open>format_qa_pairs\<close> returns the empty string.
\<close>

theorem format_qa_pairs_empty: "format_qa_pairs [] [] = ''''"
  by (simp add: format_qa_pairs_def str_strip_def lstrip_def rstrip_def)

lemma labelled_pair_Q: "\<exists>t. labelled_pair p = CHR ''Q'' # t"
  by (cases p) simp

lemma join_labelled_Q:
  "ps \<noteq> [] \<Longrightarrow> \<exists>t. str_join sep (map labelled_pair ps) = CHR ''Q'' # t"
proof (cases ps)
  case Nil
  assume "ps \<noteq> []"
  with Nil show ?thesis by simp
next
  case (Cons p rest)
  obtain t where t: "labelled_pair p = CHR ''Q'' # t"
    using labelled_pair_Q by blast
  show ?thesis
  proof (cases rest)
    case Nil
    with Cons t show ?thesis by simp
  next
    case (Cons p' rest')
    with \<open>ps = p # rest\<close> t show ?thesis by simp
  qed
qed

lemma lstrip_Q: "lstrip (CHR ''Q'' # t) = CHR ''Q'' # t"
  by (simp add: lstrip_def isspace_def whitespace_def)

text \<open>
  The loop writes \<^verbatim>\<open>"\n\n"\<close> after every pair and the strip removes the last one: what
  is left is the pairs joined by \<^verbatim>\<open>"\n\n"\<close>, without the whitespace at its end. The text
  starts with the \<open>Q\<close> of \<^verbatim>\<open>Question 1\<close>, so the strip removes nothing on the left.
\<close>

lemma strip_format_loop:
  "str_strip (format_loop 1 ps []) =
     rstrip (str_join [NL, NL] (map labelled_pair (zip [1..<1 + length ps] ps)))"
proof (cases ps)
  case Nil
  then show ?thesis
    by (simp add: str_strip_def lstrip_def rstrip_def)
next
  case (Cons p rest)
  define ips where "ips = zip [1..<1 + length ps] ps"
  have raw: "format_loop 1 ps [] = concat (map (\<lambda>p. labelled_pair p @ [NL, NL]) ips)"
    unfolding ips_def by (simp only: format_loop_concat append_Nil)
  from Cons have ne: "ips \<noteq> []" by (simp add: ips_def upt_conv_Cons)
  then obtain t where t: "str_join [NL, NL] (map labelled_pair ips) = CHR ''Q'' # t"
    using join_labelled_Q by blast
  have "format_loop 1 ps [] = (CHR ''Q'' # t) @ [NL, NL]"
    using concat_join [OF ne, of labelled_pair "[NL, NL]"] by (simp only: raw t)
  then have "str_strip (format_loop 1 ps []) = rstrip (lstrip (CHR ''Q'' # (t @ [NL, NL])))"
    by (simp add: str_strip_def)
  also have "\<dots> = rstrip ((CHR ''Q'' # t) @ [NL, NL])"
    by (simp only: lstrip_Q append_Cons)
  also have "\<dots> = rstrip (CHR ''Q'' # t)"
    by (rule rstrip_NL)
  also have "\<dots> = rstrip (str_join [NL, NL] (map labelled_pair ips))"
    by (simp only: t)
  finally show ?thesis unfolding ips_def .
qed

lemma format_qa_pairs_join:
  "format_qa_pairs questions answers =
     rstrip (str_join [NL, NL]
       (map labelled_pair
          (zip [1..<1 + length (zip questions answers)] (zip questions answers))))"
  unfolding format_qa_pairs_def by (rule strip_format_loop)

text \<open>
  C5. For sub-question and answer sequences of equal length \<open>N\<close>, the formatted context
  is made of the pairs in input order, numbered 1 to \<open>N\<close>, each one a line
  \<^verbatim>\<open>Question i: ...\<close> followed by a line \<^verbatim>\<open>Answer i: ...\<close>, consecutive pairs separated
  by a blank line; and it has no trailing whitespace: the only difference to the joined
  pairs is that whitespace at the very end, which can only come from the last answer,
  is removed.
\<close>

theorem format_qa_pairs_layout:
  assumes "length questions = length answers"
  shows "format_qa_pairs questions answers =
           rstrip (str_join [NL, NL]
             (map labelled_pair (zip [1..<Suc (length questions)] (zip questions answers))))
         \<and> (format_qa_pairs questions answers = []
            \<or> \<not> isspace (last (format_qa_pairs questions answers)))"
proof
  from assms have "1 + length (zip questions answers) = Suc (length questions)" by simp
  then show "format_qa_pairs questions answers =
           rstrip (str_join [NL, NL]
             (map labelled_pair (zip [1..<Suc (length questions)] (zip questions answers))))"
    using format_qa_pairs_join [of questions answers] by simp
  show "format_qa_pairs questions answers = []
            \<or> \<not> isspace (last (format_qa_pairs questions answers))"
    unfolding format_qa_pairs_join by (rule rstrip_no_trailing)
qed

theorem format_qa_pairs_layout_witness:
  "length [''Q1 about Bank A'', ''Q1 about Bank B''] = length [''12'', ''7 '']
   \<and> format_qa_pairs [''Q1 about Bank A'', ''Q1 about Bank B''] [''12'', ''7 '']
      = ''Question 1: Q1 about Bank A\<newline>Answer 1: 12\<newline>\<newline>Question 2: Q1 about Bank B\<newline>Answer 2: 7''
   \<and> \<not> isspace (last (format_qa_pairs [''Q1 about Bank A'', ''Q1 about Bank B''] [''12'', ''7 '']))"
  using format_qa_pairs_layout [of "[''Q1 about Bank A'', ''Q1 about Bank B'']" "[''12'', ''7 '']"]
  by (simp add: rstrip_def isspace_def whitespace_def NL_def upt_conv_Cons str_nat.simps)

text \<open>
  C7, as claimed: for sequences of unequal length the recombination fails with an
  error instead of producing a formatted context. \<open>format_qa_pairs\<close> has no check of
  the lengths and no \<^verbatim>\<open>raise\<close>; with two questions and one answer it returns the
  context of one pair.
\<close>

theorem format_qa_pairs_unequal_counterexample:
  "length [''a'', ''b''] \<noteq> length [''x'']
   \<and> format_qa_pairs [''a'', ''b''] [''x''] = ''Question 1: a\<newline>Answer 1: x''"
  by (simp add: format_qa_pairs_join rstrip_def isspace_def whitespace_def NL_def str_nat.simps)

text \<open>
  C7, amended: for sequences of unequal length \<open>format_qa_pairs\<close> raises nothing and
  returns the formatted context of the first \<open>min (length questions) (length answers)\<close>
  pairs; the elements of the longer sequence beyond that are ignored.
\<close>

theorem format_qa_pairs_truncates:
  "length questions \<noteq> length answers \<Longrightarrow>
     format_qa_pairs questions answers =
       format_qa_pairs (take (min (length questions) (length answers)) questions)
                       (take (min (length questions) (length answers)) answers)"
proof -
  have "zip (take (min (length questions) (length answers)) questions)
            (take (min (length questions) (length answers)) answers)
        = take (min (length questions) (length answers)) (zip questions answers)"
    by (simp add: take_zip)
  also have "\<dots> = zip questions answers" by simp
  finally show ?thesis by (simp add: format_qa_pairs_def)
qed

theorem format_qa_pairs_truncates_witness:
  "length [''a'', ''b''] \<noteq> length [''x'']
   \<and> format_qa_pairs [''a'', ''b''] [''x''] = format_qa_pairs [''a''] [''x'']"
  using format_qa_pairs_truncates [of "[''a'', ''b'']" "[''x'']"] by simp

subsection \<open>Fan-out with retry\<close>

lemma range_2: "[0..<2] = [0, 1]"
  by (simp add: numeral_2_eq_2)

text \<open>
  Neither loop touches \<^verbatim>\<open>rag_results\<close>: the list is empty until the one
  \<^verbatim>\<open>append\<close> after the outer loop, so a run of the cell that ends without an
  exception leaves exactly one answer, however many sub-questions there are.
\<close>

lemma for_k_keeps_results:
  "for_k rag_agent q ks env = Inr env' \<Longrightarrow> rag_results env' = rag_results env"
proof (induction ks arbitrary: env)
  case Nil
  then show ?case by simp
next
  case (Cons k ks)
  then show ?case
    by (auto split: prod.splits sum.splits exc.splits)
qed

lemma for_sub_question_keeps_results:
  "for_sub_question rag_agent qs env = Inr env' \<Longrightarrow> rag_results env' = rag_results env"
proof (induction qs arbitrary: env)
  case Nil
  then show ?case by simp
next
  case (Cons q qs)
  from Cons.prems obtain env1 where
    1: "for_k rag_agent q [0..<2] env = Inr env1" and
    2: "for_sub_question rag_agent qs env1 = Inr env'"
    by (auto split: sum.splits)
  from Cons.IH [OF 2] for_k_keeps_results [OF 1] show ?case by simp
qed

lemma rag_cell_one_answer:
  "rag_cell rag_agent sub_questions env = Inr env' \<Longrightarrow> length (rag_results env') = 1"
  by (auto simp: rag_cell_def split: sum.splits option.splits
        dest!: for_sub_question_keeps_results)

text \<open>
  C1. The claim: for \<open>N \<ge> 1\<close> sub-questions the cell produces \<open>N\<close> answers, one per
  sub-question, in input order. The run below has two sub-questions, both answered at
  the first attempt; \<^verbatim>\<open>rag_results\<close> ends with the answer to the second one only.
\<close>

theorem rag_cell_keeps_last_answer_only:
  "rag_cell scripted [''a'', ''b''] (env0 [Inr ''answer to a'', Inr ''answer to b''])
     = Inr \<lparr>agent_state = [], sub_response = Some ''answer to b'',
            rag_results = [''answer to b'']\<rparr>"
  by (simp add: rag_cell_def env0_def range_2)

text \<open>
  When the first attempt raises an \<^verbatim>\<open>Exception\<close> and the second returns \<open>r\<close>, the
  inner loop ends with \<^verbatim>\<open>sub_response\<close> bound to \<open>r\<close>.
\<close>

lemma retry_second_attempt:
  assumes "rag_agent sub_question (agent_state env) = (Inl (Exception e), s1)"
      and "rag_agent sub_question s1 = (Inr r, s2)"
  shows "for_k rag_agent sub_question [0..<2] env
           = Inr (env\<lparr>agent_state := s2, sub_response := Some r\<rparr>)"
  using assms by (simp add: range_2)

text \<open>
  C3. The claim: when the first attempt for a sub-question fails and the second
  succeeds, that sub-question's answer in the output sequence is the second attempt's
  result. In the run below the first sub-question is answered at its second attempt,
  the second sub-question at its first; the answer obtained for the first sub-question
  is not in \<^verbatim>\<open>rag_results\<close>.
\<close>

theorem rag_cell_drops_retried_answer:
  "rag_cell scripted [''a'', ''b'']
       (env0 [Inl (Exception ''timeout''), Inr ''second answer to a'', Inr ''answer to b''])
     = Inr \<lparr>agent_state = [], sub_response = Some ''answer to b'',
            rag_results = [''answer to b'']\<rparr>"
  by (simp add: rag_cell_def env0_def range_2)

text \<open>
  C2, as claimed: when every attempt for a sub-question fails, its entry in the output
  sequence is the sentinel \<^verbatim>\<open>"no response found"\<close>. The sentinel of the code is another
  string, \<^verbatim>\<open>"No response found."\<close>: with one sub-question and two failing attempts the
  output holds that string.
\<close>

theorem exhausted_sentinel_counterexample:
  "rag_cell scripted [''q''] (env0 [Inl (Exception ''timeout''), Inl (Exception ''timeout'')])
     = Inr \<lparr>agent_state = [], sub_response = Some ''No response found.'',
            rag_results = [''No response found.'']\<rparr>
   \<and> ''No response found.'' \<noteq> ''no response found''"
  by (simp add: rag_cell_def env0_def range_2)

text \<open>
  C2, amended: when the agent raises an \<^verbatim>\<open>Exception\<close> at both attempts for a
  sub-question, the two attempts end without an exception and with \<^verbatim>\<open>sub_response\<close>
  bound to the sentinel \<^verbatim>\<open>"No response found."\<close>, and the outer loop goes on with the
  sub-questions that follow, from that state. (What reaches \<^verbatim>\<open>rag_results\<close> is the
  subject of C1.)
\<close>

theorem retry_exhausted_sentinel:
  assumes "rag_agent sub_question (agent_state env) = (Inl (Exception e1), s1)"
      and "rag_agent sub_question s1 = (Inl (Exception e2), s2)"
  shows "for_k rag_agent sub_question [0..<2] env
           = Inr (env\<lparr>agent_state := s2, sub_response := Some ''No response found.''\<rparr>)
         \<and> for_sub_question rag_agent (sub_question # rest) env
           = for_sub_question rag_agent rest
               (env\<lparr>agent_state := s2, sub_response := Some ''No response found.''\<rparr>)"
proof -
  from assms have "for_k rag_agent sub_question [0..<2] env
           = Inr (env\<lparr>agent_state := s2, sub_response := Some ''No response found.''\<rparr>)"
    by (simp add: range_2)
  then show ?thesis by simp
qed

theorem retry_exhausted_sentinel_witness:
  "scripted ''a'' (agent_state
       (env0 [Inl (Exception ''timeout''), Inl (Exception ''refused''), Inr ''answer to b'']))
     = (Inl (Exception ''timeout''), [Inl (Exception ''refused''), Inr ''answer to b''])
   \<and> scripted ''a'' [Inl (Exception ''refused''), Inr ''answer to b'']
     = (Inl (Exception ''refused''), [Inr ''answer to b''])
   \<and> for_k scripted ''a'' [0..<2]
       (env0 [Inl (Exception ''timeout''), Inl (Exception ''refused''), Inr ''answer to b''])
     = Inr \<lparr>agent_state = [Inr ''answer to b''], sub_response = Some ''No response found.'',
            rag_results = []\<rparr>
   \<and> for_sub_question scripted [''a'', ''b'']
       (env0 [Inl (Exception ''timeout''), Inl (Exception ''refused''), Inr ''answer to b''])
     = Inr \<lparr>agent_state = [], sub_response = Some ''answer to b'', rag_results = []\<rparr>"
  using retry_exhausted_sentinel [of scripted "''a''"
      "env0 [Inl (Exception ''timeout''), Inl (Exception ''refused''), Inr ''answer to b'']"
      "''timeout''" "[Inl (Exception ''refused''), Inr ''answer to b'']"
      "''refused''" "[Inr ''answer to b'']" "[''b'']"]
  by (simp add: env0_def range_2)

text \<open>
  C6. The claim: for the sub-questions \<^verbatim>\<open>["Q1 about Bank A", "Q1 about Bank B"]\<close>, both
  answered at the first attempt, the formatted context holds two labelled pairs,
  numbered 1 and 2, in input order. The context computed from the \<^verbatim>\<open>rag_results\<close>
  of that run holds one pair: the first question with the answer to the second.
\<close>

theorem context_cell_two_banks:
  "context_cell scripted [''Q1 about Bank A'', ''Q1 about Bank B'']
       (env0 [Inr ''Answer about Bank A'', Inr ''Answer about Bank B''])
     = Inr ''Question 1: Q1 about Bank A\<newline>Answer 1: Answer about Bank B''"
  by (simp add: context_cell_def rag_cell_def env0_def range_2
        format_qa_pairs_join rstrip_def isspace_def whitespace_def NL_def str_nat.simps)

end
